theory Spec2Isabelle
  imports Main "HOL-Library.Word"
begin

section \<open>Native strings and the C++ free store\<close>

text \<open>
  A byte string is a \<^typ>\<open>string\<close> (a list of 8-bit characters). A Lua string may hold
  any bytes, also NUL; its buffer is followed by one terminating NUL. A \<open>const char *\<close>
  into that buffer, read as a C string, denotes the bytes before the first NUL.
\<close>

definition NUL :: char where
  "NUL = CHR 0x00"

definition c_str :: "string \<Rightarrow> string" where
  \<comment> \<open>what \<open>std::string(p)\<close>, \<open>std::string_view(p)\<close> and \<open>lua_pushstring(L, p)\<close> read from a
      \<open>const char *p\<close> pointing at a buffer with contents \<open>buf\<close>\<close>
  "c_str buf = takeWhile (\<lambda>b. b \<noteq> NUL) buf"

definition c_byte :: "string \<Rightarrow> nat \<Rightarrow> char option" where
  \<comment> \<open>\<open>p[i]\<close> for \<open>p\<close> pointing at a Lua string buffer: the contents, then the terminator;
      beyond the terminator the read is outside the object (\<open>None\<close>)\<close>
  "c_byte buf i =
     (if i < length buf then Some (buf ! i)
      else if i = length buf then Some NUL
      else None)"

text \<open>
  C++ exceptions are values. The free store is an oracle: the outcomes of the coming
  allocation requests in order (\<open>False\<close>: the request throws \<open>std::bad_alloc\<close>); past the
  end of the list every request succeeds. The \<open>std::string\<close> and \<open>std::vector\<close> operations
  used below are modelled as throwing nothing but \<open>std::bad_alloc\<close>.
\<close>

datatype cxx_exception = Bad_alloc | Length_error | Out_of_range

type_synonym free_store = "bool list"

fun operator_new :: "free_store \<Rightarrow> cxx_exception + free_store" where
  "operator_new [] = Inr []"
| "operator_new (ok # rest) = (if ok then Inr rest else Inl Bad_alloc)"

definition std_string :: "free_store \<Rightarrow> string \<Rightarrow> cxx_exception + (string \<times> free_store)" where
  \<comment> \<open>\<open>std::string(s)\<close>: a fresh copy of the bytes\<close>
  "std_string fs s = (case operator_new fs of Inl x \<Rightarrow> Inl x | Inr fs' \<Rightarrow> Inr (s, fs'))"

definition string_plus ::
  "free_store \<Rightarrow> string \<Rightarrow> string \<Rightarrow> cxx_exception + (string \<times> free_store)" where
  \<comment> \<open>\<open>operator+\<close> on strings: the concatenation, in storage that may have to grow\<close>
  "string_plus fs s t =
     (case operator_new fs of Inl x \<Rightarrow> Inl x | Inr fs' \<Rightarrow> Inr (s @ t, fs'))"

section \<open>\<open>satell::StringUtils\<close>\<close>



definition sv_find :: "string \<Rightarrow> char \<Rightarrow> nat \<Rightarrow> nat option" where
  \<comment> \<open>\<open>std::string_view::find(ch, pos)\<close>: the first index from \<open>pos\<close> on holding \<open>ch\<close>;
      \<open>None\<close> is \<open>npos\<close>\<close>
  "sv_find str ch pos =
     (let k = length (takeWhile (\<lambda>b. b \<noteq> ch) (drop pos str))
      in if pos + k < length str then Some (pos + k) else None)"

definition sv_substr :: "string \<Rightarrow> nat \<Rightarrow> nat \<Rightarrow> cxx_exception + string" where
  \<comment> \<open>\<open>std::string_view::substr(pos, n)\<close>\<close>
  "sv_substr str pos n =
     (if length str < pos then Inl Out_of_range else Inr (take n (drop pos str)))"

function split_loop ::
  "free_store \<Rightarrow> string \<Rightarrow> char \<Rightarrow> nat \<Rightarrow> string list \<Rightarrow> cxx_exception + string list" where
  "split_loop fs str delimiter start result =
     (if start < length str then
        (let endpos = (case sv_find str delimiter start of
                         None \<Rightarrow> length str
                       | Some e \<Rightarrow> e)
         in case sv_substr str start (endpos - start) of
              Inl x \<Rightarrow> Inl x
            | Inr part \<Rightarrow>
           (case operator_new fs of
              Inl x \<Rightarrow> Inl x
            | Inr fs' \<Rightarrow> split_loop fs' str delimiter (endpos + 1) (result @ [part])))
      else Inr result)"
  by pat_completeness auto
termination
  by (relation "measure (\<lambda>(fs, str, delimiter, start, result). length str - start)")
     (auto simp: sv_find_def Let_def split: option.splits if_splits)

definition StringUtils_split :: "free_store \<Rightarrow> string \<Rightarrow> char \<Rightarrow> cxx_exception + string list" where
  "StringUtils_split fs str delimiter = split_loop fs str delimiter 0 []"


section \<open>The runtime's values, stack and tables\<close>

text \<open>
  The tagged values of the runtime (spec section 3). A table value is a reference into
  the heap, so that two values may denote the same table; native functions are the
  three function pointers of this module.
\<close>

datatype cfunction = Cpp_hello | Cpp_version | Cpp_split

datatype kind =
  KNone | KNil | KBoolean | KInteger | KFloat | KString | KTable | KFunction | KForeign | KThread

datatype lua_value =
    LNil
  | LBoolean bool
  | LInteger int
  | LFloat "64 word"
  | LString string
  | LTable nat
  | LCFunction cfunction
  | LForeign nat
  | LThread nat

fun kind_of :: "lua_value \<Rightarrow> kind" where
  "kind_of LNil = KNil"
| "kind_of (LBoolean b) = KBoolean"
| "kind_of (LInteger i) = KInteger"
| "kind_of (LFloat f) = KFloat"
| "kind_of (LString s) = KString"
| "kind_of (LTable a) = KTable"
| "kind_of (LCFunction f) = KFunction"
| "kind_of (LForeign a) = KForeign"
| "kind_of (LThread a) = KThread"

type_synonym lua_table = "(lua_value \<times> lua_value) list"

record lua_State =
  stack :: "lua_value list"   \<comment> \<open>the slots of the current frame: index 1 is the head\<close>
  heap :: "lua_table list"    \<comment> \<open>the tables; a table's address is its position\<close>

text \<open>The error taxonomy of spec section 7.\<close>

datatype lua_error =
    ArityError nat nat nat      \<comment> \<open>least and greatest expected count, actual count\<close>
  | TypeMismatch kind kind int  \<comment> \<open>expected kind, actual kind, index\<close>
  | CoercionError
  | ForeignTypeMismatch
  | UseAfterFinalize
  | ResourceExhausted
  | OutOfMemory
  | NativeRaised string

text \<open>
  What a call of a native function does: it returns a result count, it leaves through
  the runtime's unwind primitive with an error value, a C++ exception leaves its body,
  or its behaviour is undefined (a read outside an object, a table operation on a slot
  that holds no table).
\<close>

datatype outcome =
    Return int lua_State
  | Raise lua_error lua_State
  | CxxThrow cxx_exception lua_State
  | Undefined

text \<open>
  Modelled from the spec: the value stack abstraction of the interpreter (\<open>lua.h\<close> and
  \<open>lauxlib.h\<close> are not among the sources). Section 3: indices are 1-based from the
  frame's base and negative from the top. Section 4.1: \<open>push\<close> appends a value to the
  top; \<open>read(index, expected_kind)\<close> returns the value or fails with \<open>TypeMismatch\<close>
  when the stored tag differs. The frame of a native call has room for the few slots
  these functions push, and the interpreter's own allocations are taken to succeed.
\<close>

definition index2value :: "lua_State \<Rightarrow> int \<Rightarrow> lua_value option" where
  "index2value L idx =
     (let n = int (length (stack L))
      in if 0 < idx \<and> idx \<le> n then Some (stack L ! nat (idx - 1))
         else if idx < 0 \<and> - idx \<le> n then Some (stack L ! nat (n + idx))
         else None)"

text \<open>
  Modelled from the spec: \<open>luaL_checkstring\<close> (a macro of \<open>lauxlib.h\<close>) is the read
  of section 4.1 with the expected kind string; a slot that does not exist has the
  kind none.
\<close>

definition luaL_checkstring :: "lua_State \<Rightarrow> int \<Rightarrow> lua_error + string" where
  \<comment> \<open>the result is the contents of the string's buffer, which the caller holds as a
      \<open>const char *\<close>\<close>
  "luaL_checkstring L arg =
     (case index2value L arg of
        None \<Rightarrow> Inl (TypeMismatch KString KNone arg)
      | Some (LString s) \<Rightarrow> Inr s
      | Some v \<Rightarrow> Inl (TypeMismatch KString (kind_of v) arg))"

text \<open>
  Modelled from the spec: the pushes of \<open>lua.h\<close> are the \<open>push\<close> of section 4.1, one
  for each native type pushed here.
\<close>

definition lua_pushvalue_top :: "lua_State \<Rightarrow> lua_value \<Rightarrow> lua_State" where
  "lua_pushvalue_top L v = L\<lparr>stack := stack L @ [v]\<rparr>"

definition lua_pushlstring :: "lua_State \<Rightarrow> string \<Rightarrow> lua_State" where
  \<comment> \<open>\<open>lua_pushlstring(L, data, size)\<close>: exactly the bytes given\<close>
  "lua_pushlstring L s = lua_pushvalue_top L (LString s)"

definition lua_pushstring :: "lua_State \<Rightarrow> string \<Rightarrow> lua_State" where
  \<comment> \<open>\<open>lua_pushstring(L, p)\<close>: the C string at \<open>p\<close>\<close>
  "lua_pushstring L buf = lua_pushlstring L (c_str buf)"

definition lua_pushcfunction :: "lua_State \<Rightarrow> cfunction \<Rightarrow> lua_State" where
  "lua_pushcfunction L f = lua_pushvalue_top L (LCFunction f)"

text \<open>
  Modelled from the spec: \<open>luaL_error\<close> (of \<open>lauxlib.h\<close>) is the unwind primitive of
  section 4.4, raising the explicit application error of section 7.
\<close>

definition luaL_error :: "lua_State \<Rightarrow> string \<Rightarrow> outcome" where
  \<comment> \<open>the unwind primitive, with an application error (\<open>NativeRaised\<close>); it never returns\<close>
  "luaL_error L msg = Raise (NativeRaised msg) L"

text \<open>
  Modelled from the spec: tables (\<open>lua_createtable\<close>, \<open>lua_rawseti\<close>, \<open>lua_setfield\<close> of
  \<open>lua.h\<close>, not among the sources). Section 3: a table is an associative container; here
  it is the list of its entries in the order the keys were first stored. Storing nil
  removes the entry. The size arguments of \<open>lua_createtable\<close> only reserve space.
\<close>

fun table_set :: "lua_table \<Rightarrow> lua_value \<Rightarrow> lua_value \<Rightarrow> lua_table" where
  "table_set [] k v = (if v = LNil then [] else [(k, v)])"
| "table_set ((k', v') # t) k v =
     (if k' = k then (if v = LNil then t else (k, v) # t)
      else (k', v') # table_set t k v)"

definition lua_createtable :: "lua_State \<Rightarrow> int \<Rightarrow> int \<Rightarrow> lua_State" where
  "lua_createtable L narr nrec =
     L\<lparr>stack := stack L @ [LTable (length (heap L))], heap := heap L @ [[]]\<rparr>"

definition table_store :: "lua_State \<Rightarrow> int \<Rightarrow> lua_value \<Rightarrow> lua_State option" where
  \<comment> \<open>\<open>t[k] = v\<close> for the table \<open>t\<close> at \<open>idx\<close> and the value \<open>v\<close> on the top, which is popped\<close>
  "table_store L idx k =
     (if stack L = [] then None
      else case index2value L idx of
             Some (LTable a) \<Rightarrow>
               if a < length (heap L)
               then Some (L\<lparr>stack := butlast (stack L),
                            heap := (heap L)[a := table_set (heap L ! a) k (last (stack L))]\<rparr>)
               else None
           | _ \<Rightarrow> None)"

definition lua_rawseti :: "lua_State \<Rightarrow> int \<Rightarrow> int \<Rightarrow> lua_State option" where
  "lua_rawseti L idx n = table_store L idx (LInteger n)"

definition lua_setfield :: "lua_State \<Rightarrow> int \<Rightarrow> string \<Rightarrow> lua_State option" where
  "lua_setfield L idx k = table_store L idx (LString (c_str k))"

text \<open>
  Modelled from the spec: the registration call (\<open>luaL_newlib\<close> of \<open>lauxlib.h\<close>, not among
  the sources). Section 6: it takes an ordered list of (name, native function) pairs
  and returns an export table value: a new table, with each function stored under its
  name in the order of the list, left on the top of the stack.
\<close>

fun luaL_setfuncs :: "lua_State \<Rightarrow> (string \<times> cfunction) list \<Rightarrow> lua_State option" where
  "luaL_setfuncs L [] = Some L"
| "luaL_setfuncs L ((name, f) # l) =
     (case lua_setfield (lua_pushcfunction L f) (- 2) name of
        None \<Rightarrow> None
      | Some L' \<Rightarrow> luaL_setfuncs L' l)"

definition luaL_newlib :: "lua_State \<Rightarrow> (string \<times> cfunction) list \<Rightarrow> lua_State option" where
  "luaL_newlib L l = luaL_setfuncs (lua_createtable L 0 (int (length l))) l"

section \<open>The exported functions\<close>



definition greeting_expr ::
  "free_store \<Rightarrow> string \<Rightarrow> cxx_exception + (string \<times> free_store)" where
  \<comment> \<open>\<open>"Hello from C++23, " + std::string(name) + "!"\<close> for a \<open>const char *name\<close>\<close>
  "greeting_expr fs name =
     (case std_string fs (c_str name) of Inl x \<Rightarrow> Inl x
      | Inr (s, fs1) \<Rightarrow>
     (case string_plus fs1 ''Hello from C++23, '' s of Inl x \<Rightarrow> Inl x
      | Inr (t, fs2) \<Rightarrow> string_plus fs2 t ''!''))"

definition cpp_hello :: "free_store \<Rightarrow> lua_State \<Rightarrow> outcome" where
  "cpp_hello fs L =
     (case luaL_checkstring L 1 of
        Inl err \<Rightarrow> Raise err L
      | Inr name \<Rightarrow>
     (case greeting_expr fs name of
        Inl x \<Rightarrow> CxxThrow x L
      | Inr (greeting, fs') \<Rightarrow> Return 1 (lua_pushstring L greeting)))"



fun store_parts :: "string list \<Rightarrow> nat \<Rightarrow> lua_State \<Rightarrow> lua_State option" where
  \<comment> \<open>the loop \<open>for (size_t i = 0; i < parts.size(); i++)\<close> from index \<open>i\<close> on, over the
      parts that remain\<close>
  "store_parts [] i L = Some L"
| "store_parts (part # parts) i L =
     (case lua_rawseti (lua_pushlstring L part) (- 2) (int (i + 1)) of
        None \<Rightarrow> None
      | Some L' \<Rightarrow> store_parts parts (i + 1) L')"

definition cpp_split :: "free_store \<Rightarrow> lua_State \<Rightarrow> outcome" where
  "cpp_split fs L =
     (case luaL_checkstring L 1 of
        Inl err \<Rightarrow> Raise err L
      | Inr str \<Rightarrow>
     (case luaL_checkstring L 2 of
        Inl err \<Rightarrow> Raise err L
      | Inr delim \<Rightarrow>
     (case c_byte delim 1 of
        None \<Rightarrow> Undefined
      | Some b1 \<Rightarrow>
          if b1 \<noteq> NUL then luaL_error L ''delimiter must be a single character''
          else
     (case c_byte delim 0 of
        None \<Rightarrow> Undefined
      | Some b0 \<Rightarrow>
     (case StringUtils_split fs (c_str str) b0 of
        Inl x \<Rightarrow> CxxThrow x L
      | Inr parts \<Rightarrow>
     (case store_parts parts 0
             (lua_createtable L (sint (word_of_nat (length parts) :: 32 word)) 0) of
        None \<Rightarrow> Undefined
      | Some L' \<Rightarrow> Return 1 L'))))))"

definition satell_cpplib :: "(string \<times> cfunction) list" where
  "satell_cpplib =
     [(''cpp_hello'', Cpp_hello), (''cpp_version'', Cpp_version), (''split'', Cpp_split)]"

definition luaopen_satell_cpp :: "lua_State \<Rightarrow> outcome" where
  "luaopen_satell_cpp L =
     (case luaL_newlib L satell_cpplib of
        None \<Rightarrow> Undefined
      | Some L' \<Rightarrow> Return 1 L')"




section \<open>Notions used in the statements\<close>

text \<open>
  The segments of a string, read off one character at a time: a delimiter closes the
  current segment, also when it is empty; the end of the string closes it only when
  it is not empty. \<open>split_loop\<close> is shown below to compute exactly these.
\<close>

fun segments :: "char \<Rightarrow> string \<Rightarrow> string \<Rightarrow> string list" where
  "segments c cur [] = (if cur = [] then [] else [cur])"
| "segments c cur (x # xs) = (if x = c then cur # segments c [] xs else segments c (cur @ [x]) xs)"

text \<open>The entries \<open>i + 1, i + 2, ...\<close> of a table holding the given strings in order.\<close>

fun array_entries :: "nat \<Rightarrow> string list \<Rightarrow> lua_table" where
  "array_entries i [] = []"
| "array_entries i (part # parts) =
     (LInteger (int (i + 1)), LString part) # array_entries (i + 1) parts"

section \<open>What \<open>StringUtils::split\<close> computes\<close>

declare split_loop.simps [simp del]

lemma segments_takeWhile:
  "segments c cur xs =
     (let pre = takeWhile (\<lambda>b. b \<noteq> c) xs
      in if length pre < length xs then (cur @ pre) # segments c [] (drop (Suc (length pre)) xs)
         else if cur @ pre = [] then [] else [cur @ pre])"
  by (induction xs arbitrary: cur) (auto simp: Let_def)

lemma operator_new_cases:
  "operator_new fs = (if fs \<noteq> [] \<and> \<not> hd fs then Inl Bad_alloc else Inr (tl fs))"
  by (cases fs) auto

lemma split_loop_segments:
  "split_loop fs str c start acc =
     (if False \<in> set (take (length (segments c [] (drop start str))) fs) then Inl Bad_alloc
      else Inr (acc @ segments c [] (drop start str)))"
proof (induction fs str c start acc rule: split_loop.induct)
  case (1 fs str c start acc)
  show ?case
  proof (cases "start < length str")
    case False
    then show ?thesis by (simp add: split_loop.simps)
  next
    case True
    define rest where "rest = drop start str"
    define pre where "pre = takeWhile (\<lambda>b. b \<noteq> c) rest"
    define endpos where "endpos = (case sv_find str c start of None \<Rightarrow> length str | Some e \<Rightarrow> e)"
    have rest_ne: "rest \<noteq> []" using True by (simp add: rest_def)
    have len_rest: "length rest = length str - start" by (simp add: rest_def)
    have pre_le: "length pre \<le> length rest" by (simp add: pre_def length_takeWhile_le)
    have endpos_eq: "endpos = (if length pre < length rest then start + length pre else length str)"
      using True by (auto simp: endpos_def sv_find_def Let_def pre_def rest_def)
    have part: "sv_substr str start (endpos - start) = Inr pre"
    proof (cases "length pre < length rest")
      case True
      then have "take (length pre) rest = pre"
        by (simp add: pre_def takeWhile_eq_take [symmetric])
      with True show ?thesis by (simp add: sv_substr_def endpos_eq rest_def)
    next
      case False
      with pre_le have "length pre = length rest" by simp
      then have "pre = rest" unfolding pre_def by (metis takeWhile_eq_take take_all order_refl)
      with False \<open>start < length str\<close> show ?thesis
        by (simp add: sv_substr_def endpos_eq rest_def)
    qed
    have segs: "segments c [] rest =
        pre # segments c [] (drop (Suc endpos) str)"
    proof (cases "length pre < length rest")
      case True
      have "drop (Suc (length pre)) rest = drop (Suc (start + length pre)) str"
        by (simp add: rest_def add.commute)
      with True show ?thesis
        using segments_takeWhile [of c "[]" rest]
        by (simp add: Let_def pre_def [symmetric] endpos_eq)
    next
      case False
      with pre_le have "length pre = length rest" by simp
      then have "pre = rest" unfolding pre_def by (metis takeWhile_eq_take take_all order_refl)
      with False rest_ne show ?thesis
        using segments_takeWhile [of c "[]" rest]
        by (simp add: Let_def pre_def [symmetric] endpos_eq)
    qed
    have unfold: "split_loop fs str c start acc =
        (case operator_new fs of Inl x \<Rightarrow> Inl x
         | Inr fs' \<Rightarrow> split_loop fs' str c (endpos + 1) (acc @ [pre]))"
      using True part unfolding endpos_def by (subst split_loop.simps) (simp add: Let_def)
    show ?thesis
    proof (cases "fs \<noteq> [] \<and> \<not> hd fs")
      case True
      then obtain r where fs: "fs = False # r" by (cases fs) auto
      have "operator_new fs = Inl Bad_alloc" by (simp add: fs)
      then have "split_loop fs str c start acc = Inl Bad_alloc" by (simp add: unfold)
      moreover have "False \<in> set (take (length (segments c [] (drop start str))) fs)"
        by (simp add: fs segs rest_def [symmetric])
      ultimately show ?thesis by simp
    next
      case False
      then have new: "operator_new fs = Inr (tl fs)" by (simp add: operator_new_cases)
      have IH: "split_loop (tl fs) str c (endpos + 1) (acc @ [pre]) =
         (if False \<in> set (take (length (segments c [] (drop (endpos + 1) str))) (tl fs))
          then Inl Bad_alloc
          else Inr ((acc @ [pre]) @ segments c [] (drop (endpos + 1) str)))"
        using "1.IH" [OF True endpos_def part new] .
      have step: "split_loop fs str c start acc =
          split_loop (tl fs) str c (endpos + 1) (acc @ [pre])"
        by (simp add: unfold new)
      have mem: "False \<in> set (take (length (segments c [] (drop start str))) fs) \<longleftrightarrow>
          False \<in> set (take (length (segments c [] (drop (endpos + 1) str))) (tl fs))"
        using False by (cases fs) (auto simp: segs rest_def [symmetric])
      show ?thesis
        unfolding step IH mem by (simp add: segs rest_def [symmetric])
    qed
  qed
qed

lemma split_segments:
  "StringUtils_split fs str c =
     (if False \<in> set (take (length (segments c [] str)) fs) then Inl Bad_alloc
      else Inr (segments c [] str))"
  by (simp add: StringUtils_split_def split_loop_segments)

lemma segments_snoc:
  "segments c cur (t @ [c]) =
     segments c cur t @ (if (t = [] \<and> cur = []) \<or> (t \<noteq> [] \<and> last t = c) then [[]] else [])"
  by (induction t arbitrary: cur) auto

section \<open>What the exported \<open>split\<close> leaves in the state\<close>

lemma table_set_fresh:
  "k \<notin> fst ` set t \<Longrightarrow> v \<noteq> LNil \<Longrightarrow> table_set t k v = t @ [(k, v)]"
  by (induction t) auto

lemma rawseti_pushed:
  assumes "stack L = st @ [LTable a]" and "a < length (heap L)"
  shows "lua_rawseti (lua_pushlstring L part) (- 2) n =
     Some (L\<lparr>heap := (heap L)[a := table_set (heap L ! a) (LInteger n) (LString part)]\<rparr>)"
  using assms
  by (simp add: lua_rawseti_def lua_pushlstring_def lua_pushvalue_top_def table_store_def
      index2value_def nth_append butlast_append)

lemma store_parts_array:
  assumes "stack L = st @ [LTable a]" and "a < length (heap L)"
    and "\<And>j. i \<le> j \<Longrightarrow> LInteger (int (j + 1)) \<notin> fst ` set (heap L ! a)"
  shows "store_parts parts i L =
     Some (L\<lparr>heap := (heap L)[a := heap L ! a @ array_entries i parts]\<rparr>)"
  using assms
proof (induction parts arbitrary: i L)
  case Nil
  then show ?case by simp
next
  case (Cons part parts)
  let ?L' = "L\<lparr>heap := (heap L)[a := heap L ! a @ [(LInteger (int (i + 1)), LString part)]]\<rparr>"
  have fresh: "LInteger (int (i + 1)) \<notin> fst ` set (heap L ! a)"
    using Cons.prems(3) [of i] by simp
  have step: "lua_rawseti (lua_pushlstring L part) (- 2) (int (i + 1)) = Some ?L'"
    using rawseti_pushed [OF Cons.prems(1,2)] fresh by (simp add: table_set_fresh)
  have "store_parts parts (i + 1) ?L' =
     Some (?L'\<lparr>heap := (heap ?L')[a := heap ?L' ! a @ array_entries (i + 1) parts]\<rparr>)"
  proof (rule Cons.IH)
    show "stack ?L' = st @ [LTable a]" using Cons.prems(1) by simp
    show "a < length (heap ?L')" using Cons.prems(2) by simp
    fix j assume "i + 1 \<le> j"
    then show "LInteger (int (j + 1)) \<notin> fst ` set (heap ?L' ! a)"
      using Cons.prems(2) Cons.prems(3) [of j] by auto
  qed
  then show ?case using step Cons.prems(2) by simp
qed

lemma c_byte_first:
  "c_byte delim 1 = Some b \<Longrightarrow> c_byte delim 0 = Some (hd delim) \<and> delim \<noteq> []"
  by (cases delim) (auto simp: c_byte_def split: if_splits)

lemma checkstring_args:
  "stack L = LString text # rest \<Longrightarrow> luaL_checkstring L 1 = Inr text"
  "stack L = u # LString delim # rest \<Longrightarrow> luaL_checkstring L 2 = Inr delim"
  by (simp_all add: luaL_checkstring_def index2value_def)

lemma cpp_split_accepted:
  assumes "stack L = LString text # LString delim # rest"
    and "c_byte delim 1 = Some NUL"
  shows "cpp_split fs L =
     (case StringUtils_split fs (c_str text) (hd delim) of
        Inl x \<Rightarrow> CxxThrow x L
      | Inr parts \<Rightarrow>
          Return 1 (L\<lparr>stack := stack L @ [LTable (length (heap L))],
                      heap := heap L @ [array_entries 0 parts]\<rparr>))"
proof (cases "StringUtils_split fs (c_str text) (hd delim)")
  case (Inl x)
  then show ?thesis
    using assms c_byte_first [OF assms(2)]
    by (simp add: cpp_split_def checkstring_args)
next
  case (Inr parts)
  let ?L1 = "lua_createtable L (sint (word_of_nat (length parts) :: 32 word)) 0"
  have "store_parts parts 0 ?L1 =
     Some (?L1\<lparr>heap := (heap ?L1)[length (heap L) := heap ?L1 ! length (heap L) @ array_entries 0 parts]\<rparr>)"
    by (rule store_parts_array [where st = "stack L"]) (simp_all add: lua_createtable_def)
  then have "store_parts parts 0 ?L1 =
     Some (L\<lparr>stack := stack L @ [LTable (length (heap L))],
             heap := heap L @ [array_entries 0 parts]\<rparr>)"
    by (simp add: lua_createtable_def)
  then show ?thesis
    using Inr assms c_byte_first [OF assms(2)]
    by (simp add: cpp_split_def checkstring_args)
qed

lemma cpp_split_rejected:
  assumes "stack L = LString text # LString delim # rest"
    and "1 < length delim" and "delim ! 1 \<noteq> NUL"
  shows "cpp_split fs L = Raise (NativeRaised ''delimiter must be a single character'') L"
  using assms by (simp add: cpp_split_def checkstring_args c_byte_def luaL_error_def)

section \<open>Reading arguments, returning results, loading the module\<close>

lemma checkstring_top:
  "luaL_checkstring (lua_pushlstring L s) (- 1) = Inr s"
  by (simp add: luaL_checkstring_def lua_pushlstring_def lua_pushvalue_top_def index2value_def)

lemma checkstring_wrong_kind:
  assumes "kind_of v \<noteq> KString"
  shows "luaL_checkstring \<lparr>stack = pre @ v # post, heap = hp\<rparr> (int (length pre) + 1) =
     Inl (TypeMismatch KString (kind_of v) (int (length pre) + 1))"
  using assms
  by (cases v) (simp_all add: luaL_checkstring_def index2value_def nth_append)


text \<open>
  None of the exported functions has a handler: a failure of one of the three
  allocation requests of the greeting leaves \<open>cpp_hello\<close> as \<open>std::bad_alloc\<close>.
\<close>

lemma cpp_hello_throws:
  assumes "stack L = LString name # rest" and "False \<in> set (take 3 fs)"
  shows "cpp_hello fs L = CxxThrow Bad_alloc L"
  using assms
  by (cases fs; cases "tl fs"; cases "tl (tl fs)")
     (auto simp: cpp_hello_def checkstring_args greeting_expr_def std_string_def
        string_plus_def numeral_3_eq_3)





lemma setfield_pushed:
  assumes "stack L = st @ [LTable a]" and "a < length (heap L)"
  shows "lua_setfield (lua_pushcfunction L f) (- 2) name =
     Some (L\<lparr>heap := (heap L)[a := table_set (heap L ! a) (LString (c_str name)) (LCFunction f)]\<rparr>)"
  using assms
  by (simp add: lua_setfield_def lua_pushcfunction_def lua_pushvalue_top_def table_store_def
      index2value_def nth_append butlast_append)

lemma setfield_new_table:
  "lua_setfield
     (lua_pushcfunction
        (L\<lparr>stack := stack L @ [LTable (length (heap L))], heap := heap L @ [t]\<rparr>) f)
     (- 2) name =
   Some (L\<lparr>stack := stack L @ [LTable (length (heap L))],
           heap := heap L @ [table_set t (LString (c_str name)) (LCFunction f)]\<rparr>)"
  using setfield_pushed [of "L\<lparr>stack := stack L @ [LTable (length (heap L))],
      heap := heap L @ [t]\<rparr>" "stack L" "length (heap L)" f name]
  by simp

lemma luaopen_result:
  "luaopen_satell_cpp L =
     Return 1 (L\<lparr>stack := stack L @ [LTable (length (heap L))],
                 heap := heap L @ [[(LString ''cpp_hello'', LCFunction Cpp_hello),
                                    (LString ''cpp_version'', LCFunction Cpp_version),
                                    (LString ''split'', LCFunction Cpp_split)]]\<rparr>)"
  by (simp add: luaopen_satell_cpp_def luaL_newlib_def satell_cpplib_def lua_createtable_def
      setfield_new_table c_str_def NUL_def)

lemma segments_trailing:
  assumes "t \<noteq> []" and "last t \<noteq> c"
  shows "segments c [] (t @ [c]) = segments c [] t"
  using assms by (simp add: segments_snoc)

text \<open>
  When the text before a final delimiter is empty or ends with the delimiter itself,
  the final delimiter closes one more, empty, segment.
\<close>

lemma segments_trailing_extra:
  assumes "t = [] \<or> last t = c"
  shows "segments c [] (t @ [c]) = segments c [] t @ [[]]"
  using assms by (auto simp: segments_snoc)

lemma split_trailing_extra:
  assumes "t = [] \<or> last t = c" and "False \<notin> set fs"
  shows "StringUtils_split fs t c = Inr (segments c [] t)
     \<and> StringUtils_split fs (t @ [c]) c = Inr (segments c [] t @ [[]])"
proof -
  have "False \<notin> set (take n fs)" for n
    using assms(2) by (auto dest: in_set_takeD)
  then show ?thesis
    using segments_trailing_extra [OF assms(1)] by (simp add: split_segments)
qed

section \<open>The claims\<close>

text \<open>
  Claim C1. Calling the exported \<open>split\<close> with the text \<open>a,b,,c\<close> and the delimiter \<open>,\<close>
  returns one result, a new table, whose entries are exactly the four strings \<open>a\<close>,
  \<open>b\<close>, the empty string and \<open>c\<close> at the indices 1 to 4 in that order (whatever the
  heap held before, and provided no allocation of the C++ free store fails).
\<close>

theorem split_example:
  assumes "False \<notin> set fs"
  shows "cpp_split fs \<lparr>stack = [LString ''a,b,,c'', LString '',''], heap = hp\<rparr> =
     Return 1
       \<lparr>stack = [LString ''a,b,,c'', LString '','', LTable (length hp)],
        heap = hp @ [[(LInteger 1, LString ''a''), (LInteger 2, LString ''b''),
                      (LInteger 3, LString ''''), (LInteger 4, LString ''c'')]]\<rparr>"
proof -
  have no_fail: "False \<notin> set (take n fs)" for n
    using assms by (auto dest: in_set_takeD)
  have "StringUtils_split fs (c_str ''a,b,,c'') (hd '','') = Inr [''a'', ''b'', '''', ''c'']"
    by (simp add: split_segments no_fail c_str_def NUL_def)
  then show ?thesis
    using cpp_split_accepted [of "\<lparr>stack = [LString ''a,b,,c'', LString '',''], heap = hp\<rparr>"
        "''a,b,,c''" "'',''" "[]" fs]
    by (simp add: c_byte_def)
qed

text \<open>The claim at the empty heap, with a free store that never fails.\<close>

theorem split_example_witness:
  "False \<notin> set [] \<and>
   cpp_split [] \<lparr>stack = [LString ''a,b,,c'', LString '',''], heap = []\<rparr> =
     Return 1
       \<lparr>stack = [LString ''a,b,,c'', LString '','', LTable 0],
        heap = [[(LInteger 1, LString ''a''), (LInteger 2, LString ''b''),
                 (LInteger 3, LString ''''), (LInteger 4, LString ''c'')]]\<rparr>"
  using split_example [of "[]" "[]"] by simp

text \<open>
  Claim C2, at an input where the code departs from it. The delimiter has three
  bytes, a comma, NUL and a comma, so it is longer than one character; the guard of
  \<open>cpp_split\<close> reads its second byte only, finds NUL, and raises nothing: the text is
  split at the comma and a table is returned. (When the second byte is not NUL the
  guard does raise, with the state unchanged: \<open>cpp_split_rejected\<close>.)
\<close>

theorem split_embedded_NUL_delimiter:
  "cpp_split [] \<lparr>stack = [LString ''a,b'', LString [CHR '','', CHR 0x00, CHR '','']], heap = []\<rparr> =
     Return 1
       \<lparr>stack = [LString ''a,b'', LString [CHR '','', CHR 0x00, CHR '',''], LTable 0],
        heap = [[(LInteger 1, LString ''a''), (LInteger 2, LString ''b'')]]\<rparr>"
proof -
  have "StringUtils_split [] (c_str ''a,b'') (CHR '','') = Inr [''a'', ''b'']"
    by (simp add: split_segments c_str_def NUL_def)
  then show ?thesis
    using cpp_split_accepted [of
        "\<lparr>stack = [LString ''a,b'', LString [CHR '','', CHR 0x00, CHR '','']], heap = []\<rparr>"
        "''a,b''" "[CHR '','', CHR 0x00, CHR '','']" "[]" "[]"]
    by (simp add: c_byte_def NUL_def)
qed

text \<open>
  Claim C3. Reading an argument whose kind is not string fails with \<open>TypeMismatch\<close>
  (expected string, the actual kind, the index) and changes nothing: no value is
  converted. So do the exported functions that read arguments: \<open>cpp_hello\<close> on its
  first argument, \<open>split\<close> on its first and, after a string, on its second
  (\<open>cpp_version\<close> reads none). A string that was pushed is read back equal: byte for
  byte when pushed with its length, as the C string it denotes when pushed as one.
\<close>

theorem wrong_kind_type_mismatch:
  assumes "kind_of v \<noteq> KString"
  shows
    "luaL_checkstring \<lparr>stack = pre @ v # post, heap = hp\<rparr> (int (length pre) + 1) =
       Inl (TypeMismatch KString (kind_of v) (int (length pre) + 1))
     \<and> cpp_hello fs \<lparr>stack = v # post, heap = hp\<rparr> =
         Raise (TypeMismatch KString (kind_of v) 1) \<lparr>stack = v # post, heap = hp\<rparr>
     \<and> cpp_split fs \<lparr>stack = v # post, heap = hp\<rparr> =
         Raise (TypeMismatch KString (kind_of v) 1) \<lparr>stack = v # post, heap = hp\<rparr>
     \<and> cpp_split fs \<lparr>stack = LString s # v # post, heap = hp\<rparr> =
         Raise (TypeMismatch KString (kind_of v) 2) \<lparr>stack = LString s # v # post, heap = hp\<rparr>
     \<and> luaL_checkstring (lua_pushlstring L s) (- 1) = Inr s
     \<and> luaL_checkstring (lua_pushstring L s) (- 1) = Inr (c_str s)"
proof -
  have one: "luaL_checkstring \<lparr>stack = v # post, heap = hp\<rparr> 1 =
      Inl (TypeMismatch KString (kind_of v) 1)"
    using checkstring_wrong_kind [OF assms, of "[]" post hp] by simp
  have two: "luaL_checkstring \<lparr>stack = LString s # v # post, heap = hp\<rparr> 2 =
      Inl (TypeMismatch KString (kind_of v) 2)"
    using checkstring_wrong_kind [OF assms, of "[LString s]" post hp] by simp
  show ?thesis
    using checkstring_wrong_kind [OF assms, of pre post hp] one two
    by (simp add: cpp_hello_def cpp_split_def checkstring_args checkstring_top lua_pushstring_def)
qed

text \<open>A table where a string is expected, and the string \<open>a,b\<close> pushed and read back.\<close>

theorem wrong_kind_type_mismatch_witness:
  "kind_of (LTable 0) \<noteq> KString
   \<and> luaL_checkstring \<lparr>stack = [LString ''x'', LTable 0], heap = [[]]\<rparr> 2 =
       Inl (TypeMismatch KString KTable 2)
   \<and> cpp_hello [] \<lparr>stack = [LTable 0], heap = [[]]\<rparr> =
       Raise (TypeMismatch KString KTable 1) \<lparr>stack = [LTable 0], heap = [[]]\<rparr>
   \<and> cpp_split [] \<lparr>stack = [LString ''a,b'', LTable 0], heap = [[]]\<rparr> =
       Raise (TypeMismatch KString KTable 2) \<lparr>stack = [LString ''a,b'', LTable 0], heap = [[]]\<rparr>
   \<and> luaL_checkstring (lua_pushstring \<lparr>stack = [], heap = []\<rparr> ''a,b'') (- 1) = Inr ''a,b''"
  using wrong_kind_type_mismatch [of "LTable 0" "[LString ''x'']" "[]" "[[]]" "[]" "''a,b''"
      "\<lparr>stack = [], heap = []\<rparr>"]
    wrong_kind_type_mismatch [of "LTable 0" "[]" "[]" "[[]]" "[]" "''a,b''"
      "\<lparr>stack = [], heap = []\<rparr>"]
  by (simp add: c_str_def NUL_def)

text \<open>
  Claim C4 as stated fails. The export table declares no arity and nothing checks the
  argument count; called with the one argument \<open>a,b\<close>, \<open>split\<close> reads it, then fails on
  reading the second with \<open>TypeMismatch\<close> (no value at index 2), not with \<open>ArityError\<close>;
  called with a table as its one argument it fails with the type error of index 1.
\<close>

theorem split_one_argument_counterexample:
  "cpp_split [] \<lparr>stack = [LString ''a,b''], heap = []\<rparr> =
     Raise (TypeMismatch KString KNone 2) \<lparr>stack = [LString ''a,b''], heap = []\<rparr>
   \<and> cpp_split [] \<lparr>stack = [LString ''a,b''], heap = []\<rparr> \<noteq>
     Raise (ArityError 2 2 1) \<lparr>stack = [LString ''a,b''], heap = []\<rparr>
   \<and> cpp_split [] \<lparr>stack = [LTable 0], heap = [[]]\<rparr> =
     Raise (TypeMismatch KString KTable 1) \<lparr>stack = [LTable 0], heap = [[]]\<rparr>"
  by (simp add: cpp_split_def luaL_checkstring_def index2value_def)

text \<open>
  Claim C4, amended. Invoking \<open>split\<close> with only one argument fails, inside its body
  and by its argument reads, with a \<open>TypeMismatch\<close>: for index 2 (expected string, no
  value there) when the argument is a string, and for index 1 (expected string, the
  argument's kind) otherwise. Nothing is split, no table is created and the stack is
  unchanged.
\<close>

theorem split_one_argument:
  "cpp_split fs \<lparr>stack = [v], heap = hp\<rparr> =
     Raise (if kind_of v = KString then TypeMismatch KString KNone 2
            else TypeMismatch KString (kind_of v) 1)
       \<lparr>stack = [v], heap = hp\<rparr>"
  by (cases v) (simp_all add: cpp_split_def luaL_checkstring_def index2value_def)

theorem split_one_argument_witness:
  "cpp_split [] \<lparr>stack = [LInteger 5], heap = []\<rparr> =
     Raise (TypeMismatch KString KInteger 1) \<lparr>stack = [LInteger 5], heap = []\<rparr>"
  using split_one_argument [of "[]" "LInteger 5" "[]"] by simp



text \<open>
  Claim C6. Each call of the entry point \<open>luaopen_satell_cpp\<close> returns one result, a
  new table holding exactly the three bindings \<open>cpp_hello\<close>, \<open>cpp_version\<close> and
  \<open>split\<close>. Called a second time, it builds a second table with the same bindings
  and leaves the first one, and every table that was there before, as it was. The
  names of the registry are distinct, and so are the keys of the table.
\<close>

theorem module_load_twice:
  "(let exports = [(LString ''cpp_hello'', LCFunction Cpp_hello),
                   (LString ''cpp_version'', LCFunction Cpp_version),
                   (LString ''split'', LCFunction Cpp_split)];
        a = length (heap L);
        L1 = L\<lparr>stack := stack L @ [LTable a], heap := heap L @ [exports]\<rparr>;
        L2 = L\<lparr>stack := stack L @ [LTable a, LTable (a + 1)],
               heap := heap L @ [exports, exports]\<rparr>
    in luaopen_satell_cpp L = Return 1 L1
       \<and> luaopen_satell_cpp L1 = Return 1 L2
       \<and> heap L1 ! a = exports
       \<and> heap L2 ! a = exports
       \<and> heap L2 ! (a + 1) = exports
       \<and> take a (heap L2) = heap L
       \<and> length (heap L2) = a + 2
       \<and> map fst exports = map (\<lambda>(name, f). LString name) satell_cpplib
       \<and> distinct (map fst satell_cpplib)
       \<and> distinct (map fst exports))"
  by (simp add: Let_def luaopen_result nth_append satell_cpplib_def)

text \<open>The first load into an empty state.\<close>

theorem module_load_twice_witness:
  "luaopen_satell_cpp \<lparr>stack = [], heap = []\<rparr> =
     Return 1 \<lparr>stack = [LTable 0],
               heap = [[(LString ''cpp_hello'', LCFunction Cpp_hello),
                        (LString ''cpp_version'', LCFunction Cpp_version),
                        (LString ''split'', LCFunction Cpp_split)]]\<rparr>"
  using module_load_twice [of "\<lparr>stack = [], heap = []\<rparr>"] by (simp add: Let_def)

text \<open>
  Claim C7, at an input where the code departs from it. When the first allocation of
  the greeting fails, \<open>std::bad_alloc\<close> leaves the body of \<open>cpp_hello\<close>, which has no
  handler: the call ends by a C++ exception and not through the unwind primitive.
\<close>

theorem hello_bad_alloc_escapes:
  "cpp_hello [False] \<lparr>stack = [LString ''Satell User''], heap = []\<rparr> =
     CxxThrow Bad_alloc \<lparr>stack = [LString ''Satell User''], heap = []\<rparr>"
  by (simp add: cpp_hello_def checkstring_args greeting_expr_def std_string_def)

text \<open>
  Claim C8 as stated fails. The string \<open>,\<close> ends with the delimiter, and without its
  final character it is empty; its split is the one empty segment, the split of the
  empty string is no segment at all.
\<close>

theorem split_trailing_counterexample:
  "StringUtils_split [] '','' (CHR '','') = Inr ['''']
   \<and> StringUtils_split [] (butlast '','') (CHR '','') = Inr []
   \<and> StringUtils_split [] '','' (CHR '','') \<noteq> StringUtils_split [] (butlast '','') (CHR '','')"
  by (simp add: split_segments)

text \<open>
  Claim C8, amended. When \<open>s\<close> ends with the delimiter \<open>c\<close> and what precedes that
  final \<open>c\<close> is not empty and does not itself end with \<open>c\<close>, \<open>split(s, c)\<close> equals the
  split of \<open>s\<close> with the final \<open>c\<close> removed (whatever the free store does). The split
  of the empty string is the empty sequence, and the exported \<open>split\<close> returns an
  empty table for the empty text.
\<close>

theorem split_trailing_delimiter:
  "(t \<noteq> [] \<and> last t \<noteq> c \<longrightarrow>
      StringUtils_split fs (t @ [c]) c = StringUtils_split fs t c)
   \<and> StringUtils_split fs [] c = Inr []
   \<and> cpp_split fs \<lparr>stack = [LString [], LString [c]], heap = hp\<rparr> =
       Return 1 \<lparr>stack = [LString [], LString [c], LTable (length hp)], heap = hp @ [[]]\<rparr>"
proof -
  have empty: "StringUtils_split fs [] c = Inr []"
    by (simp add: split_segments)
  have "cpp_split fs \<lparr>stack = [LString [], LString [c]], heap = hp\<rparr> =
       Return 1 \<lparr>stack = [LString [], LString [c], LTable (length hp)], heap = hp @ [[]]\<rparr>"
    using cpp_split_accepted [of "\<lparr>stack = [LString [], LString [c]], heap = hp\<rparr>"
        "[]" "[c]" "[]" fs] empty
    by (simp add: c_byte_def c_str_def)
  then show ?thesis
    using empty by (simp add: split_segments segments_trailing)
qed

text \<open>The example of the claim: \<open>a,\<close> splits as \<open>a\<close> does, into the one segment \<open>a\<close>.\<close>

theorem split_trailing_delimiter_witness:
  "''a'' \<noteq> [] \<and> last ''a'' \<noteq> CHR '',''
   \<and> StringUtils_split [] (''a'' @ '','') (CHR '','') = StringUtils_split [] ''a'' (CHR '','')
   \<and> StringUtils_split [] ''a'' (CHR '','') = Inr [''a'']"
  using split_trailing_delimiter [of "''a''" "CHR '',''" "[]" "[]"]
  by (simp add: split_segments)

text \<open>
  Claim C9. The guard of the exported \<open>split\<close> reads the delimiter's second byte, not
  its length: whenever that byte is NUL (the terminator of a one-byte delimiter, or
  an embedded NUL of a longer one) the validation error is not raised, and the text
  is split at the delimiter's first byte alone; the call returns the table of the
  segments, unless an allocation of the free store fails.
\<close>

theorem delimiter_second_byte_only:
  assumes "stack L = LString text # LString delim # rest"
    and "c_byte delim 1 = Some NUL"
  shows "cpp_split fs L =
     (case StringUtils_split fs (c_str text) (hd delim) of
        Inl x \<Rightarrow> CxxThrow x L
      | Inr parts \<Rightarrow>
          Return 1 (L\<lparr>stack := stack L @ [LTable (length (heap L))],
                      heap := heap L @ [array_entries 0 parts]\<rparr>))
     \<and> cpp_split fs L \<noteq> Raise (NativeRaised ''delimiter must be a single character'') L"
  using cpp_split_accepted [OF assms, of fs]
  by (simp split: sum.splits)

text \<open>A delimiter of three bytes with NUL in the middle: the text is split at commas.\<close>

theorem delimiter_second_byte_only_witness:
  "stack \<lparr>stack = [LString ''k=v,x'', LString [CHR '','', CHR 0x00, CHR '','']], heap = []\<rparr> =
     LString ''k=v,x'' # LString [CHR '','', CHR 0x00, CHR '',''] # []
   \<and> c_byte [CHR '','', CHR 0x00, CHR '',''] 1 = Some NUL
   \<and> length [CHR '','', CHR 0x00, CHR '',''] = 3
   \<and> cpp_split [] \<lparr>stack = [LString ''k=v,x'', LString [CHR '','', CHR 0x00, CHR '','']],
                     heap = []\<rparr> =
       Return 1 \<lparr>stack = [LString ''k=v,x'', LString [CHR '','', CHR 0x00, CHR '',''], LTable 0],
                 heap = [[(LInteger 1, LString ''k=v''), (LInteger 2, LString ''x'')]]\<rparr>"
proof -
  have st: "stack \<lparr>stack = [LString ''k=v,x'', LString [CHR '','', CHR 0x00, CHR '','']],
      heap = []\<rparr> = LString ''k=v,x'' # LString [CHR '','', CHR 0x00, CHR '',''] # []"
    by simp
  have b: "c_byte [CHR '','', CHR 0x00, CHR '',''] 1 = Some NUL"
    by (simp add: c_byte_def NUL_def)
  have sp: "StringUtils_split [] (c_str ''k=v,x'') (CHR '','') = Inr [''k=v'', ''x'']"
    by (simp add: split_segments c_str_def NUL_def)
  show ?thesis
    using delimiter_second_byte_only [OF st b, of "[]"] b sp by simp
qed



end
